theory Spec2Isabelle
  imports Complex_Main
begin

section \<open>Numbers, the canvas and the game objects\<close>

text \<open>
  JavaScript numbers are modelled as real numbers: the positions, widths and heights of
  the game are small integers or short decimal fractions, and no claim below depends on
  rounding, on NaN or on an infinity.
\<close>

text \<open>
  A 2D canvas context is modelled by the list of drawing calls it has received, oldest
  first. The context is an object shared by everything that draws, so the functions that
  draw take the list and return it extended. \<open>DrawImage\<close> keeps the eight numbers of
  \<open>drawImage\<close> (source rectangle, destination rectangle); the image is always
  \<open>Runner.imageSprite\<close>.
\<close>

datatype canvas_op =
    Save
  | Restore
  | StrokeStyle string
  | StrokeRect real real real real
  | DrawImage real real real real real real real real

type_synonym canvasCtx = "canvas_op list"

text \<open>
  The files \<open>Runner.js\<close>, \<open>Trex.js\<close> and \<open>Obstacle.js\<close> are not among the sources at
  hand. What \<open>checkForCollision\<close> and \<open>Cloud\<close> read from them is taken as data: the
  fields of the player and of the obstacle that are read, and a record of the globals.
\<close>

record TrexConfig =
  WIDTH :: real
  HEIGHT :: real

record ObstacleType =
  width :: real
  height :: real

record SpritePos =
  x :: real
  y :: real

text \<open>
  Modelled from the spec: the class \<open>CollisionBox\<close> is imported from
  \<open>offline-sprite-definitions.js\<close>, which is not part of the sources at hand. The spec's
  data model gives it as \<open>{x, y, width, height}\<close>, an axis-aligned rectangle, and every
  call \<open>new CollisionBox(x, y, w, h)\<close> of the sources passes the four fields in that order.
\<close>

record CollisionBox =
  x :: real
  y :: real
  width :: real
  height :: real

definition new_CollisionBox :: "real \<Rightarrow> real \<Rightarrow> real \<Rightarrow> real \<Rightarrow> CollisionBox" where
  "new_CollisionBox px py w h = \<lparr>CollisionBox.x = px, y = py, width = w, height = h\<rparr>"

record Trex =
  xPos :: real
  yPos :: real
  config :: TrexConfig
  ducking :: bool

text \<open>The field \<open>size\<close> of an obstacle is written \<open>size'\<close>.\<close>

record Obstacle =
  xPos :: real
  yPos :: real
  typeConfig :: ObstacleType
  size' :: real
  collisionBoxes :: "CollisionBox list"

text \<open>
  The globals: \<open>Runner.defaultDimensions.WIDTH\<close>, the value of
  \<open>Runner.isAltGameModeEnabled()\<close>, \<open>Runner.spriteDefinition.TREX.COLLISION_BOXES\<close>,
  \<open>Trex.collisionBoxes.DUCKING\<close>, \<open>Trex.collisionBoxes.RUNNING\<close> and the value of the
  exported constant \<open>IS_HIDPI\<close>, which is \<open>window.devicePixelRatio > 1\<close>.
\<close>

record Globals =
  Runner_defaultDimensions_WIDTH :: real
  Runner_isAltGameModeEnabled :: bool
  Runner_spriteDefinition_TREX_COLLISION_BOXES :: "CollisionBox list"
  Trex_collisionBoxes_DUCKING :: "CollisionBox list"
  Trex_collisionBoxes_RUNNING :: "CollisionBox list"
  IS_HIDPI :: bool

section \<open>Collision geometry\<close>

text \<open>
  \<open>boxCompare(tRexBox, obstacleBox)\<close>: the flag \<open>crashed\<close> starts as false and is set when
  the four strict comparisons of the axis-aligned bounding box method hold. The locals
  \<open>tRexBoxX\<close>, \<open>tRexBoxY\<close> and \<open>obstacleBoxY\<close> are bound as in the source although the
  comparisons read the fields again.
\<close>

definition boxCompare :: "CollisionBox \<Rightarrow> CollisionBox \<Rightarrow> bool" where
  "boxCompare tRexBox obstacleBox =
     (let crashed = False;
          tRexBoxX = x tRexBox;
          tRexBoxY = y tRexBox;
          obstacleBoxX = x obstacleBox;
          obstacleBoxY = y obstacleBox
      in if x tRexBox < obstacleBoxX + width obstacleBox \<and>
            x tRexBox + width tRexBox > obstacleBoxX \<and>
            y tRexBox < y obstacleBox + height obstacleBox \<and>
            height tRexBox + y tRexBox > y obstacleBox
         then True
         else crashed)"

text \<open>
  \<open>createAdjustedCollisionBox(box, adjustment)\<close>: the box moved by the origin of the
  adjustment box, with its own width and height.
\<close>

definition createAdjustedCollisionBox :: "CollisionBox \<Rightarrow> CollisionBox \<Rightarrow> CollisionBox" where
  "createAdjustedCollisionBox box adjustment =
     new_CollisionBox (x box + x adjustment) (y box + y adjustment) (width box) (height box)"

text \<open>
  \<open>drawCollisionBoxes(canvasCtx, tRexBox, obstacleBox)\<close>: the debug drawing, a red
  outline of the first box and a green outline of the second.
\<close>

definition drawCollisionBoxes :: "canvasCtx \<Rightarrow> CollisionBox \<Rightarrow> CollisionBox \<Rightarrow> canvasCtx" where
  "drawCollisionBoxes canvasCtx tRexBox obstacleBox =
     canvasCtx @
     [Save,
      StrokeStyle ''#f00'',
      StrokeRect (x tRexBox) (y tRexBox) (width tRexBox) (height tRexBox),
      StrokeStyle ''#0f0'',
      StrokeRect (x obstacleBox) (y obstacleBox) (width obstacleBox) (height obstacleBox),
      Restore]"

text \<open>
  The optional argument \<open>opt_canvasCtx\<close> is an option; \<open>if (opt_canvasCtx)
  drawCollisionBoxes(opt_canvasCtx, a, b)\<close> draws when it is present.
\<close>

definition debugDraw :: "canvasCtx option \<Rightarrow> CollisionBox \<Rightarrow> CollisionBox \<Rightarrow> canvasCtx option" where
  "debugDraw opt_canvasCtx a b =
     (case opt_canvasCtx of
        None \<Rightarrow> None
      | Some canvasCtx \<Rightarrow> Some (drawCollisionBoxes canvasCtx a b))"

text \<open>
  The inner loop of \<open>checkForCollision\<close>, \<open>for (let i = 0; i < collisionBoxes.length; i++)\<close>,
  for one player sub-box \<open>tRexCollisionBox = tRexCollisionBoxes[t]\<close>. The index runs over
  the whole array in order, so the recursion is on the list of the boxes still to visit.
  The result is what \<open>return\<close> gave, or \<open>None\<close> when the loop ran to its end, together
  with the canvas. The array \<open>collisionBoxes\<close> of the obstacle is \<open>obstacleCollisionBoxes\<close>
  in the two loops.
\<close>

fun checkForCollision_inner ::
  "CollisionBox \<Rightarrow> CollisionBox list \<Rightarrow> CollisionBox \<Rightarrow> CollisionBox \<Rightarrow> canvasCtx option \<Rightarrow>
   (CollisionBox \<times> CollisionBox) option \<times> canvasCtx option" where
  "checkForCollision_inner tRexCollisionBox [] tRexBox obstacleBox opt_canvasCtx =
     (None, opt_canvasCtx)"
| "checkForCollision_inner tRexCollisionBox (collisionBox # rest) tRexBox obstacleBox
       opt_canvasCtx =
     (let adjTrexBox = createAdjustedCollisionBox tRexCollisionBox tRexBox;
          adjObstacleBox = createAdjustedCollisionBox collisionBox obstacleBox;
          crashed = boxCompare adjTrexBox adjObstacleBox;
          opt_canvasCtx = debugDraw opt_canvasCtx adjTrexBox adjObstacleBox
      in if crashed then (Some (adjTrexBox, adjObstacleBox), opt_canvasCtx)
         else checkForCollision_inner tRexCollisionBox rest tRexBox obstacleBox
                opt_canvasCtx)"

text \<open>
  The outer loop, \<open>for (let t = 0; t < tRexCollisionBoxes.length; t++)\<close>: a \<open>return\<close>
  inside the inner loop leaves both loops.
\<close>

fun checkForCollision_outer ::
  "CollisionBox list \<Rightarrow> CollisionBox list \<Rightarrow> CollisionBox \<Rightarrow> CollisionBox \<Rightarrow> canvasCtx option \<Rightarrow>
   (CollisionBox \<times> CollisionBox) option \<times> canvasCtx option" where
  "checkForCollision_outer [] obstacleCollisionBoxes tRexBox obstacleBox opt_canvasCtx =
     (None, opt_canvasCtx)"
| "checkForCollision_outer (tRexCollisionBox # tRexCollisionBoxes) obstacleCollisionBoxes tRexBox
       obstacleBox opt_canvasCtx =
     (case checkForCollision_inner tRexCollisionBox obstacleCollisionBoxes tRexBox obstacleBox
             opt_canvasCtx of
        (Some boxes, opt_canvasCtx) \<Rightarrow> (Some boxes, opt_canvasCtx)
      | (None, opt_canvasCtx) \<Rightarrow>
          checkForCollision_outer tRexCollisionBoxes obstacleCollisionBoxes tRexBox obstacleBox
            opt_canvasCtx)"

text \<open>
  \<open>checkForCollision(obstacle, tRex, opt_canvasCtx)\<close>. The result is the returned pair of
  boxes, or \<open>None\<close> for \<open>undefined\<close>, together with the canvas.
\<close>

definition checkForCollision ::
  "Globals \<Rightarrow> Obstacle \<Rightarrow> Trex \<Rightarrow> canvasCtx option \<Rightarrow>
   (CollisionBox \<times> CollisionBox) option \<times> canvasCtx option" where
  "checkForCollision g obstacle tRex opt_canvasCtx =
     (let obstacleBoxXPos = Runner_defaultDimensions_WIDTH g + Obstacle.xPos obstacle;
          tRexBox = new_CollisionBox
            (Trex.xPos tRex + 1)
            (Trex.yPos tRex + 1)
            (TrexConfig.WIDTH (config tRex) - 2)
            (TrexConfig.HEIGHT (config tRex) - 2);
          obstacleBox = new_CollisionBox
            (Obstacle.xPos obstacle + 1)
            (Obstacle.yPos obstacle + 1)
            (ObstacleType.width (typeConfig obstacle) * size' obstacle - 2)
            (ObstacleType.height (typeConfig obstacle) - 2);
          opt_canvasCtx = debugDraw opt_canvasCtx tRexBox obstacleBox
      in if boxCompare tRexBox obstacleBox then
           (let collisionBoxes = Obstacle.collisionBoxes obstacle;
                tRexCollisionBoxes =
                  (if Runner_isAltGameModeEnabled g
                   then Runner_spriteDefinition_TREX_COLLISION_BOXES g
                   else if ducking tRex then Trex_collisionBoxes_DUCKING g
                   else Trex_collisionBoxes_RUNNING g)
            in checkForCollision_outer tRexCollisionBoxes collisionBoxes tRexBox obstacleBox
                 opt_canvasCtx)
         else (None, opt_canvasCtx))"

subsection \<open>The detailed check as the spec words it\<close>

text \<open>
  The spec: for every pair (player sub-box, obstacle sub-box), player sub-boxes outer and
  obstacle sub-boxes inner, translate each sub-box by its parent's coarse-box origin and
  test the overlap again; the first overlapping pair is the result.
\<close>

definition translateBox :: "CollisionBox \<Rightarrow> CollisionBox \<Rightarrow> CollisionBox" where
  "translateBox parent sub =
     \<lparr>CollisionBox.x = x sub + x parent, y = y sub + y parent,
      width = width sub, height = height sub\<rparr>"

definition translatedPairs ::
  "CollisionBox \<Rightarrow> CollisionBox list \<Rightarrow> CollisionBox \<Rightarrow> CollisionBox list \<Rightarrow>
   (CollisionBox \<times> CollisionBox) list" where
  "translatedPairs playerCoarse playerSubs obstacleCoarse obstacleSubs =
     concat (map (\<lambda>p. map (\<lambda>ob. (translateBox playerCoarse p, translateBox obstacleCoarse ob))
                          obstacleSubs)
                 playerSubs)"

definition firstOverlappingPair ::
  "CollisionBox \<Rightarrow> CollisionBox list \<Rightarrow> CollisionBox \<Rightarrow> CollisionBox list \<Rightarrow>
   (CollisionBox \<times> CollisionBox) option" where
  "firstOverlappingPair playerCoarse playerSubs obstacleCoarse obstacleSubs =
     List.find (\<lambda>(a, b). boxCompare a b)
       (translatedPairs playerCoarse playerSubs obstacleCoarse obstacleSubs)"

text \<open>
  The pairs the detailed check tests: every pair before the first overlapping one, and
  that one.
\<close>

fun testedPairs :: "(CollisionBox \<times> CollisionBox) list \<Rightarrow> (CollisionBox \<times> CollisionBox) list" where
  "testedPairs [] = []"
| "testedPairs ((a, b) # ps) = (if boxCompare a b then [(a, b)] else (a, b) # testedPairs ps)"

definition drawPairs :: "canvasCtx \<Rightarrow> (CollisionBox \<times> CollisionBox) list \<Rightarrow> canvasCtx" where
  "drawPairs canvasCtx ps = foldl (\<lambda>c (a, b). drawCollisionBoxes c a b) canvasCtx ps"

section \<open>Clouds\<close>

text \<open>
  \<open>getRandomNum(min, max)\<close> is \<open>Math.floor(Math.random() * (max - min + 1)) + min\<close>.
  \<open>Math.random()\<close> gives a number that is at least 0 and less than 1; the number it gave
  at this call is the argument \<open>random\<close>.
\<close>

definition getRandomNum :: "real \<Rightarrow> real \<Rightarrow> real \<Rightarrow> real" where
  "getRandomNum random minimum maximum =
     real_of_int \<lfloor>random * (maximum - minimum + 1)\<rfloor> + minimum"

record CloudConfig =
  HEIGHT :: real
  MAX_CLOUD_GAP :: real
  MAX_SKY_LEVEL :: real
  MIN_CLOUD_GAP :: real
  MIN_SKY_LEVEL :: real
  WIDTH :: real

definition Cloud_config :: CloudConfig where
  "Cloud_config =
     \<lparr>CloudConfig.HEIGHT = 14,
      MAX_CLOUD_GAP = 400,
      MAX_SKY_LEVEL = 30,
      MIN_CLOUD_GAP = 100,
      MIN_SKY_LEVEL = 71,
      WIDTH = 46\<rparr>"

subsection \<open>The names that \<open>Cloud.js\<close> can read\<close>

text \<open>
  \<open>Cloud.js\<close> is a module. The names bound in it are those of its import declarations
  (lines 2 to 11) and of its class declaration; line 1, \<open>import './Utils.js';\<close>, runs that
  module and binds no name. The body of the class reads two more names, \<open>getRandomNum\<close>
  (lines 33 and 41) and \<open>IS_HIDPI\<close> (line 55). Both are declared as exports,
  \<open>export function getRandomNum\<close> and \<open>export const IS_HIDPI\<close>, in the module that holds
  \<open>checkForCollision\<close>, and an export is not a property of the global object, so in
  \<open>Cloud.js\<close> neither name is bound and reading one raises a \<open>ReferenceError\<close>.
  (\<open>Math\<close> is a property of the global object.)
\<close>

datatype error = ReferenceError string

definition Cloud_js_bindings :: "string list" where
  "Cloud_js_bindings =
     [''Runner'', ''GeneratedSoundFx'', ''GameOverPanel'', ''Obstacles'', ''Trex'',
      ''DistanceMeter'', ''BackgroundEl'', ''NightMode'', ''HorizonLine'', ''Horizon'',
      ''Cloud'']"

text \<open>
  Reading the name \<open>name\<close> in \<open>Cloud.js\<close>: the value \<open>exported\<close> that the exporting
  module gives it when the name is bound, the error otherwise.
\<close>

definition Cloud_js_resolve :: "string \<Rightarrow> 'a \<Rightarrow> error + 'a" where
  "Cloud_js_resolve name exported =
     (if name \<in> set Cloud_js_bindings then Inr exported else Inl (ReferenceError name))"

subsection \<open>The class \<open>Cloud\<close>\<close>

text \<open>
  The fields of a cloud. The canvas context \<open>this.canvasCtx\<close> is the shared canvas, which
  the methods below take and return next to the cloud. A method gives back \<open>Inr\<close> when it
  returns and \<open>Inl\<close> when it raises, together with the cloud and the canvas as the
  method left them: what was assigned or drawn before an error stays.
\<close>

record Cloud =
  spritePos :: SpritePos
  containerWidth :: real
  xPos :: real
  yPos :: real
  remove :: bool
  gap :: real

text \<open>
  \<open>Cloud.draw()\<close>: after \<open>save()\<close> and the four sizes, the test \<open>if (IS_HIDPI)\<close> reads
  the name; then one image, twice the source size on a high-density display, and
  \<open>restore()\<close>.
\<close>

definition Cloud_draw :: "Globals \<Rightarrow> Cloud \<Rightarrow> canvasCtx \<Rightarrow> (error + unit) \<times> canvasCtx" where
  "Cloud_draw g this canvasCtx =
     (let canvasCtx = canvasCtx @ [Save];
          sourceWidth = CloudConfig.WIDTH Cloud_config;
          sourceHeight = CloudConfig.HEIGHT Cloud_config;
          outputWidth = sourceWidth;
          outputHeight = sourceHeight
      in case Cloud_js_resolve ''IS_HIDPI'' (IS_HIDPI g) of
           Inl e \<Rightarrow> (Inl e, canvasCtx)
         | Inr is_hidpi \<Rightarrow>
             (let sourceWidth = (if is_hidpi then sourceWidth * 2 else sourceWidth);
                  sourceHeight = (if is_hidpi then sourceHeight * 2 else sourceHeight)
              in (Inr (),
                  canvasCtx @
                  [DrawImage (SpritePos.x (spritePos this)) (SpritePos.y (spritePos this))
                     sourceWidth sourceHeight
                     (Cloud.xPos this) (Cloud.yPos this)
                     outputWidth outputHeight,
                   Restore])))"

text \<open>
  \<open>Cloud.init()\<close>: reads \<open>getRandomNum\<close>, sets the height of the cloud from one random
  number and draws the cloud.
\<close>

definition Cloud_init ::
  "Globals \<Rightarrow> real \<Rightarrow> Cloud \<times> canvasCtx \<Rightarrow> (error + unit) \<times> Cloud \<times> canvasCtx" where
  "Cloud_init g random = (\<lambda>(this, canvasCtx).
     case Cloud_js_resolve ''getRandomNum'' getRandomNum of
       Inl e \<Rightarrow> (Inl e, this, canvasCtx)
     | Inr getRandomNum' \<Rightarrow>
         (let this = this\<lparr>Cloud.yPos :=
                getRandomNum' random (MAX_SKY_LEVEL Cloud_config) (MIN_SKY_LEVEL Cloud_config)\<rparr>
          in case Cloud_draw g this canvasCtx of
               (result, canvasCtx) \<Rightarrow> (result, this, canvasCtx)))"

text \<open>
  The constructor. The fields up to \<open>remove\<close> are assigned, then the right-hand side of
  \<open>this.gap = getRandomNum(...)\<close> reads \<open>getRandomNum\<close>, then \<open>init\<close> runs. With the
  name bound it would call \<open>Math.random()\<close> twice: \<open>random_gap\<close> is the number of the
  first call, for the gap, and \<open>random_yPos\<close> that of the second, in \<open>init\<close>. When the
  constructor raises, \<open>new Cloud(...)\<close> gives no object. The parameters \<open>spritePos\<close> and
  \<open>containerWidth\<close> carry a prime, the fields do not.
\<close>

definition Cloud_constructor ::
  "Globals \<Rightarrow> real \<Rightarrow> real \<Rightarrow> canvasCtx \<Rightarrow> SpritePos \<Rightarrow> real \<Rightarrow> (error + Cloud) \<times> canvasCtx" where
  "Cloud_constructor g random_gap random_yPos canvasCtx spritePos' containerWidth' =
     (case Cloud_js_resolve ''getRandomNum'' getRandomNum of
        Inl e \<Rightarrow> (Inl e, canvasCtx)
      | Inr getRandomNum' \<Rightarrow>
          (case Cloud_init g random_yPos
                  (\<lparr>spritePos = spritePos',
                    containerWidth = containerWidth',
                    xPos = containerWidth',
                    yPos = 0,
                    remove = False,
                    gap = getRandomNum' random_gap
                            (MIN_CLOUD_GAP Cloud_config) (MAX_CLOUD_GAP Cloud_config)\<rparr>,
                   canvasCtx) of
             (Inl e, this, canvasCtx) \<Rightarrow> (Inl e, canvasCtx)
           | (Inr u, this, canvasCtx) \<Rightarrow> (Inr this, canvasCtx)))"

text \<open>\<open>Cloud.isVisible()\<close>.\<close>

definition Cloud_isVisible :: "Cloud \<Rightarrow> bool" where
  "Cloud_isVisible this \<longleftrightarrow> Cloud.xPos this + CloudConfig.WIDTH Cloud_config > 0"

text \<open>
  \<open>Cloud.update(speed)\<close>; \<open>Math.ceil\<close> is the ceiling. The position is assigned before
  \<open>draw()\<close> is called, and the test of \<open>isVisible()\<close> follows only when \<open>draw()\<close> returns.
\<close>

definition Cloud_update ::
  "Globals \<Rightarrow> real \<Rightarrow> Cloud \<times> canvasCtx \<Rightarrow> (error + unit) \<times> Cloud \<times> canvasCtx" where
  "Cloud_update g speed = (\<lambda>(this, canvasCtx).
     if \<not> Cloud.remove this then
       (let this = this\<lparr>Cloud.xPos := Cloud.xPos this - real_of_int \<lceil>speed\<rceil>\<rparr>
        in case Cloud_draw g this canvasCtx of
             (Inl e, canvasCtx) \<Rightarrow> (Inl e, this, canvasCtx)
           | (Inr u, canvasCtx) \<Rightarrow>
               if \<not> Cloud_isVisible this then (Inr (), this\<lparr>Cloud.remove := True\<rparr>, canvasCtx)
               else (Inr (), this, canvasCtx))
     else (Inr (), this, canvasCtx))"

section \<open>Concrete objects\<close>

text \<open>
  A running and a ducking player on the ground, a small cactus far from the player and
  one that the player touches, and a cloud about to leave the canvas.
\<close>

definition example_globals :: Globals where
  "example_globals =
     \<lparr>Runner_defaultDimensions_WIDTH = 600,
      Runner_isAltGameModeEnabled = False,
      Runner_spriteDefinition_TREX_COLLISION_BOXES = [],
      Trex_collisionBoxes_DUCKING = [new_CollisionBox 1 18 55 25],
      Trex_collisionBoxes_RUNNING =
        [new_CollisionBox 22 0 17 16, new_CollisionBox 1 18 30 9, new_CollisionBox 10 35 14 8],
      IS_HIDPI = False\<rparr>"

definition example_tRex :: Trex where
  "example_tRex =
     \<lparr>Trex.xPos = 50, yPos = 93,
      config = \<lparr>TrexConfig.WIDTH = 44, HEIGHT = 47\<rparr>, ducking = False\<rparr>"

definition example_obstacle :: "real \<Rightarrow> Obstacle" where
  "example_obstacle xpos =
     \<lparr>Obstacle.xPos = xpos, yPos = 105,
      typeConfig = \<lparr>ObstacleType.width = 17, height = 35\<rparr>,
      size' = 1,
      collisionBoxes =
        [new_CollisionBox 0 7 5 27, new_CollisionBox 4 0 6 34, new_CollisionBox 10 4 7 14]\<rparr>"

definition example_cloud :: Cloud where
  "example_cloud =
     \<lparr>spritePos = \<lparr>SpritePos.x = 86, y = 2\<rparr>,
      containerWidth = 600,
      xPos = - 40,
      yPos = 45,
      remove = False,
      gap = 250\<rparr>"

section \<open>The overlap test\<close>

lemma boxCompare_iff:
  "boxCompare a b \<longleftrightarrow>
     x a < x b + width b \<and> x a + width a > x b \<and>
     y a < y b + height b \<and> y a + height a > y b"
  by (simp add: boxCompare_def Let_def add.commute)

text \<open>
  Claim C1. For every pair of collision boxes \<open>a\<close> (player) and \<open>b\<close> (obstacle),
  \<open>boxCompare a b\<close> is true if and only if \<open>a.x < b.x + b.width\<close>,
  \<open>a.x + a.width > b.x\<close>, \<open>a.y < b.y + b.height\<close> and \<open>a.y + a.height > b.y\<close> all hold.
  In particular two boxes that only touch on an edge, so that one of the four comparisons
  is an equality, do not overlap.
\<close>

theorem boxCompare_strict_aabb:
  "(boxCompare a b \<longleftrightarrow>
      x a < x b + width b \<and> x a + width a > x b \<and>
      y a < y b + height b \<and> y a + height a > y b) \<and>
   (x a = x b + width b \<or> x a + width a = x b \<or>
    y a = y b + height b \<or> y a + height a = y b \<longrightarrow> \<not> boxCompare a b)"
  by (auto simp add: boxCompare_iff)

theorem boxCompare_strict_aabb_witness:
  "x (new_CollisionBox 0 0 20 20) + width (new_CollisionBox 0 0 20 20)
     = x (new_CollisionBox 20 0 20 20) \<and>
   \<not> boxCompare (new_CollisionBox 0 0 20 20) (new_CollisionBox 20 0 20 20) \<and>
   boxCompare (new_CollisionBox 0 0 20 20) (new_CollisionBox 19 0 20 20)"
  using boxCompare_strict_aabb [of "new_CollisionBox 0 0 20 20" "new_CollisionBox 20 0 20 20"]
    boxCompare_strict_aabb [of "new_CollisionBox 0 0 20 20" "new_CollisionBox 19 0 20 20"]
  by (simp add: new_CollisionBox_def)

text \<open>
  Claim C5. \<open>boxCompare\<close> is symmetric: for every pair of collision boxes \<open>a\<close> and \<open>b\<close>,
  \<open>boxCompare a b\<close> equals \<open>boxCompare b a\<close>.
\<close>

theorem boxCompare_symmetric: "boxCompare a b = boxCompare b a"
  by (auto simp add: boxCompare_iff)

text \<open>
  Claim C6. On the inputs of the spec's scenarios: two identical boxes
  \<open>{x:100, y:0, width:20, height:20}\<close> overlap, and the box
  \<open>{x:0, y:0, width:20, height:20}\<close> does not overlap the box
  \<open>{x:200, y:0, width:20, height:20}\<close>.
\<close>

theorem boxCompare_scenarios:
  "boxCompare \<lparr>x = 100, y = 0, width = 20, height = 20\<rparr>
              \<lparr>x = 100, y = 0, width = 20, height = 20\<rparr> = True \<and>
   boxCompare \<lparr>x = 0, y = 0, width = 20, height = 20\<rparr>
              \<lparr>x = 200, y = 0, width = 20, height = 20\<rparr> = False"
  by (simp add: boxCompare_def)

section \<open>The two-phase collision check\<close>

lemma createAdjusted_translate:
  "createAdjustedCollisionBox box adjustment = translateBox adjustment box"
  by (simp add: createAdjustedCollisionBox_def translateBox_def new_CollisionBox_def)

lemma find_append_pairs:
  "List.find P (xs @ ys) = (case List.find P xs of None \<Rightarrow> List.find P ys | Some p \<Rightarrow> Some p)"
  by (induction xs) auto

lemma testedPairs_append:
  "testedPairs (xs @ ys) =
     (case List.find (\<lambda>(a, b). boxCompare a b) xs of
        None \<Rightarrow> xs @ testedPairs ys
      | Some p \<Rightarrow> testedPairs xs)"
  by (induction xs rule: testedPairs.induct) (auto split: option.splits)

lemma testedPairs_no_overlap:
  "List.find (\<lambda>(a, b). boxCompare a b) xs = None \<Longrightarrow> testedPairs xs = xs"
  by (induction xs rule: testedPairs.induct) (auto split: if_splits)

lemma drawPairs_Nil: "drawPairs c [] = c"
  by (simp add: drawPairs_def)

lemma drawPairs_Cons: "drawPairs c ((a, b) # ps) = drawPairs (drawCollisionBoxes c a b) ps"
  by (simp add: drawPairs_def)

lemma drawPairs_append: "drawPairs c (ps @ qs) = drawPairs (drawPairs c ps) qs"
  by (simp add: drawPairs_def)

lemma inner_result:
  "checkForCollision_inner t cbs tB oB ctx =
     (List.find (\<lambda>(a, b). boxCompare a b) (map (\<lambda>ob. (translateBox tB t, translateBox oB ob)) cbs),
      map_option (\<lambda>c. drawPairs c (testedPairs (map (\<lambda>ob. (translateBox tB t, translateBox oB ob)) cbs))) ctx)"
proof (induction cbs arbitrary: ctx)
  case Nil
  show ?case by (cases ctx) (simp_all add: drawPairs_Nil)
next
  case (Cons cb cbs)
  show ?case
    by (cases ctx)
      (simp_all add: Cons.IH Let_def createAdjusted_translate debugDraw_def drawPairs_Cons drawPairs_Nil)
qed

lemma outer_result:
  "checkForCollision_outer ts cbs tB oB ctx =
     (firstOverlappingPair tB ts oB cbs,
      map_option (\<lambda>c. drawPairs c (testedPairs (translatedPairs tB ts oB cbs))) ctx)"
proof (induction ts arbitrary: ctx)
  case Nil
  show ?case
    by (cases ctx) (simp_all add: firstOverlappingPair_def translatedPairs_def drawPairs_Nil)
next
  case (Cons t ts)
  show ?case
    by (cases ctx)
      (auto simp add: Cons.IH inner_result firstOverlappingPair_def translatedPairs_def
        find_append_pairs testedPairs_append testedPairs_no_overlap drawPairs_append split: option.splits)
qed

lemma find_Some_member: "List.find P xs = Some p \<Longrightarrow> p \<in> set xs \<and> P p"
  by (induction xs) (auto split: if_splits)

lemma drawPairs_prefix: "drawPairs c ps = c @ drawPairs [] ps"
proof (induction ps arbitrary: c)
  case Nil
  show ?case by (simp add: drawPairs_Nil)
next
  case (Cons p ps)
  obtain a b where p: "p = (a, b)" by (cases p)
  have "drawPairs c (p # ps) = drawCollisionBoxes c a b @ drawPairs [] ps"
    using Cons.IH [of "drawCollisionBoxes c a b"] by (simp add: p drawPairs_Cons)
  moreover have "drawPairs [] (p # ps) = drawCollisionBoxes [] a b @ drawPairs [] ps"
    using Cons.IH [of "drawCollisionBoxes [] a b"] by (simp add: p drawPairs_Cons)
  ultimately show ?case by (simp add: drawCollisionBoxes_def)
qed

lemma checkForCollision_unfold:
  fixes g :: Globals and obstacle :: Obstacle and tRex :: Trex
  defines "tRexBox \<equiv> \<lparr>CollisionBox.x = Trex.xPos tRex + 1, y = Trex.yPos tRex + 1,
      width = TrexConfig.WIDTH (config tRex) - 2, height = TrexConfig.HEIGHT (config tRex) - 2\<rparr>"
  defines "obstacleBox \<equiv> \<lparr>CollisionBox.x = Obstacle.xPos obstacle + 1, y = Obstacle.yPos obstacle + 1,
      width = ObstacleType.width (typeConfig obstacle) * size' obstacle - 2,
      height = ObstacleType.height (typeConfig obstacle) - 2\<rparr>"
  defines "tRexCollisionBoxes \<equiv>
     (if Runner_isAltGameModeEnabled g then Runner_spriteDefinition_TREX_COLLISION_BOXES g
      else if ducking tRex then Trex_collisionBoxes_DUCKING g
      else Trex_collisionBoxes_RUNNING g)"
  shows "checkForCollision g obstacle tRex opt_canvasCtx =
     (if boxCompare tRexBox obstacleBox
      then checkForCollision_outer tRexCollisionBoxes (collisionBoxes obstacle) tRexBox obstacleBox
             (debugDraw opt_canvasCtx tRexBox obstacleBox)
      else (None, debugDraw opt_canvasCtx tRexBox obstacleBox))"
  unfolding tRexBox_def obstacleBox_def tRexCollisionBoxes_def
  by (simp add: checkForCollision_def Let_def new_CollisionBox_def)

lemmas example_defs = example_globals_def example_tRex_def example_obstacle_def new_CollisionBox_def

text \<open>
  Claim C2. For every obstacle and player whose coarse boxes (the outer boxes, inset by 1)
  do not overlap according to \<open>boxCompare\<close>, \<open>checkForCollision\<close> returns none, and no
  player sub-box is tested against an obstacle sub-box: the canvas, when one is given,
  receives the outlines of the two coarse boxes and nothing else, where every tested pair
  of sub-boxes would have been drawn, and the outcome is the same for any other sub-boxes
  of the obstacle and any other globals, that is any other sub-boxes of the player.
\<close>

theorem checkForCollision_fast_reject:
  fixes g g' :: Globals and obstacle :: Obstacle and tRex :: Trex
  defines "tRexBox \<equiv> \<lparr>CollisionBox.x = Trex.xPos tRex + 1, y = Trex.yPos tRex + 1,
      width = TrexConfig.WIDTH (config tRex) - 2, height = TrexConfig.HEIGHT (config tRex) - 2\<rparr>"
  defines "obstacleBox \<equiv> \<lparr>CollisionBox.x = Obstacle.xPos obstacle + 1, y = Obstacle.yPos obstacle + 1,
      width = ObstacleType.width (typeConfig obstacle) * size' obstacle - 2,
      height = ObstacleType.height (typeConfig obstacle) - 2\<rparr>"
  assumes "\<not> boxCompare tRexBox obstacleBox"
  shows "checkForCollision g obstacle tRex opt_canvasCtx =
           (None, debugDraw opt_canvasCtx tRexBox obstacleBox) \<and>
         checkForCollision g' (obstacle\<lparr>collisionBoxes := boxes\<rparr>) tRex opt_canvasCtx =
           checkForCollision g obstacle tRex opt_canvasCtx"
  using assms(3) unfolding tRexBox_def obstacleBox_def
  by (simp add: checkForCollision_unfold)

theorem checkForCollision_fast_reject_witness:
  "\<not> boxCompare \<lparr>CollisionBox.x = 51, y = 94, width = 42, height = 45\<rparr>
                 \<lparr>CollisionBox.x = 301, y = 106, width = 15, height = 33\<rparr> \<and>
   checkForCollision example_globals (example_obstacle 300) example_tRex (Some []) =
     (None,
      Some [Save, StrokeStyle ''#f00'', StrokeRect 51 94 42 45,
            StrokeStyle ''#0f0'', StrokeRect 301 106 15 33, Restore]) \<and>
   checkForCollision example_globals ((example_obstacle 300)\<lparr>collisionBoxes := []\<rparr>) example_tRex
       (Some []) =
     checkForCollision example_globals (example_obstacle 300) example_tRex (Some [])"
  using checkForCollision_fast_reject
    [of example_tRex "example_obstacle 300" example_globals "Some []" example_globals "[]"]
  by (simp add: example_defs boxCompare_def debugDraw_def drawCollisionBoxes_def)

text \<open>
  Claim C3. When the coarse boxes overlap, \<open>checkForCollision\<close> goes through the pairs
  (player sub-box, obstacle sub-box), the player's sub-boxes in the outer loop and the
  obstacle's in the inner loop, each sub-box moved by the origin of its parent's coarse box
  with its width and height unchanged, and returns the first pair that \<open>boxCompare\<close>
  reports as overlapping, none when there is no such pair. The canvas, when one is given,
  shows the pairs in the order in which they were tested, up to the returned one.
\<close>

theorem checkForCollision_first_pair:
  fixes g :: Globals and obstacle :: Obstacle and tRex :: Trex
  defines "tRexBox \<equiv> \<lparr>CollisionBox.x = Trex.xPos tRex + 1, y = Trex.yPos tRex + 1,
      width = TrexConfig.WIDTH (config tRex) - 2, height = TrexConfig.HEIGHT (config tRex) - 2\<rparr>"
  defines "obstacleBox \<equiv> \<lparr>CollisionBox.x = Obstacle.xPos obstacle + 1, y = Obstacle.yPos obstacle + 1,
      width = ObstacleType.width (typeConfig obstacle) * size' obstacle - 2,
      height = ObstacleType.height (typeConfig obstacle) - 2\<rparr>"
  defines "tRexCollisionBoxes \<equiv>
     (if Runner_isAltGameModeEnabled g then Runner_spriteDefinition_TREX_COLLISION_BOXES g
      else if ducking tRex then Trex_collisionBoxes_DUCKING g
      else Trex_collisionBoxes_RUNNING g)"
  assumes "boxCompare tRexBox obstacleBox"
  shows "checkForCollision g obstacle tRex opt_canvasCtx =
           (firstOverlappingPair tRexBox tRexCollisionBoxes obstacleBox (collisionBoxes obstacle),
            map_option
              (\<lambda>c. drawPairs (drawCollisionBoxes c tRexBox obstacleBox)
                     (testedPairs (translatedPairs tRexBox tRexCollisionBoxes
                        obstacleBox (collisionBoxes obstacle))))
              opt_canvasCtx)"
proof -
  have "checkForCollision g obstacle tRex opt_canvasCtx =
      checkForCollision_outer tRexCollisionBoxes (collisionBoxes obstacle) tRexBox obstacleBox
        (debugDraw opt_canvasCtx tRexBox obstacleBox)"
    using assms(4) unfolding tRexBox_def obstacleBox_def tRexCollisionBoxes_def
    by (simp add: checkForCollision_unfold)
  then show ?thesis
    by (cases opt_canvasCtx) (simp_all add: outer_result debugDraw_def)
qed

theorem checkForCollision_first_pair_witness:
  "boxCompare \<lparr>CollisionBox.x = 51, y = 94, width = 42, height = 45\<rparr>
              \<lparr>CollisionBox.x = 61, y = 106, width = 15, height = 33\<rparr> \<and>
   checkForCollision example_globals (example_obstacle 60) example_tRex None =
     (Some (\<lparr>CollisionBox.x = 52, y = 112, width = 30, height = 9\<rparr>,
            \<lparr>CollisionBox.x = 61, y = 113, width = 5, height = 27\<rparr>),
      None)"
  using checkForCollision_first_pair [of example_tRex "example_obstacle 60" example_globals None]
  by (simp add: example_defs boxCompare_def firstOverlappingPair_def translatedPairs_def
      translateBox_def)

text \<open>
  Claim C10. Whenever \<open>checkForCollision\<close> returns a value rather than none, the value is
  a pair of an adjusted player sub-box and an adjusted obstacle sub-box for which
  \<open>boxCompare\<close> is true: a collision is never reported with a pair that does not overlap.
\<close>

theorem checkForCollision_reports_overlap:
  fixes g :: Globals and obstacle :: Obstacle and tRex :: Trex
  defines "tRexBox \<equiv> \<lparr>CollisionBox.x = Trex.xPos tRex + 1, y = Trex.yPos tRex + 1,
      width = TrexConfig.WIDTH (config tRex) - 2, height = TrexConfig.HEIGHT (config tRex) - 2\<rparr>"
  defines "obstacleBox \<equiv> \<lparr>CollisionBox.x = Obstacle.xPos obstacle + 1, y = Obstacle.yPos obstacle + 1,
      width = ObstacleType.width (typeConfig obstacle) * size' obstacle - 2,
      height = ObstacleType.height (typeConfig obstacle) - 2\<rparr>"
  defines "tRexCollisionBoxes \<equiv>
     (if Runner_isAltGameModeEnabled g then Runner_spriteDefinition_TREX_COLLISION_BOXES g
      else if ducking tRex then Trex_collisionBoxes_DUCKING g
      else Trex_collisionBoxes_RUNNING g)"
  assumes "fst (checkForCollision g obstacle tRex opt_canvasCtx) = Some (a, b)"
  shows "boxCompare a b \<and>
         (\<exists>t \<in> set tRexCollisionBoxes. \<exists>c \<in> set (collisionBoxes obstacle).
            a = createAdjustedCollisionBox t tRexBox \<and>
            b = createAdjustedCollisionBox c obstacleBox)"
proof -
  have unfold: "checkForCollision g obstacle tRex opt_canvasCtx =
     (if boxCompare tRexBox obstacleBox
      then checkForCollision_outer tRexCollisionBoxes (collisionBoxes obstacle) tRexBox obstacleBox
             (debugDraw opt_canvasCtx tRexBox obstacleBox)
      else (None, debugDraw opt_canvasCtx tRexBox obstacleBox))"
    unfolding tRexBox_def obstacleBox_def tRexCollisionBoxes_def
    by (rule checkForCollision_unfold)
  have "boxCompare tRexBox obstacleBox"
    using assms(4) unfold by (auto split: if_splits)
  with assms(4) unfold
  have "firstOverlappingPair tRexBox tRexCollisionBoxes obstacleBox (collisionBoxes obstacle)
      = Some (a, b)"
    by (simp add: outer_result)
  then have "boxCompare a b"
    and "(a, b) \<in> set (translatedPairs tRexBox tRexCollisionBoxes obstacleBox (collisionBoxes obstacle))"
    using find_Some_member [of "\<lambda>(a, b). boxCompare a b" _ "(a, b)"]
    by (auto simp add: firstOverlappingPair_def)
  then show ?thesis
    by (auto simp add: translatedPairs_def createAdjusted_translate)
qed

theorem checkForCollision_reports_overlap_witness:
  "fst (checkForCollision example_globals (example_obstacle 60)
          (example_tRex\<lparr>ducking := True\<rparr>) None) =
     Some (\<lparr>CollisionBox.x = 52, y = 112, width = 55, height = 25\<rparr>,
           \<lparr>CollisionBox.x = 61, y = 113, width = 5, height = 27\<rparr>) \<and>
   boxCompare \<lparr>CollisionBox.x = 52, y = 112, width = 55, height = 25\<rparr>
              \<lparr>CollisionBox.x = 61, y = 113, width = 5, height = 27\<rparr>"
proof -
  have returned: "fst (checkForCollision example_globals (example_obstacle 60)
          (example_tRex\<lparr>ducking := True\<rparr>) None) =
     Some (\<lparr>CollisionBox.x = 52, y = 112, width = 55, height = 25\<rparr>,
           \<lparr>CollisionBox.x = 61, y = 113, width = 5, height = 27\<rparr>)"
    by (simp add: checkForCollision_def example_defs Let_def boxCompare_def debugDraw_def
        createAdjustedCollisionBox_def)
  show ?thesis
    using returned checkForCollision_reports_overlap [OF returned] by simp
qed

text \<open>
  Claim C4. \<open>checkForCollision\<close> builds one coarse box per entity, inset by 1 on each
  side: \<open>(xPos + 1, yPos + 1, WIDTH - 2, HEIGHT - 2)\<close> for the player and
  \<open>(xPos + 1, yPos + 1, typeConfig.width * size - 2, typeConfig.height - 2)\<close> for the
  obstacle. These two boxes decide the outer bounds check and are the adjustment of every
  sub-box; with a canvas, they are the first red and the first green rectangle drawn.
\<close>

theorem checkForCollision_coarse_boxes:
  fixes g :: Globals and obstacle :: Obstacle and tRex :: Trex
  defines "tRexBox \<equiv> \<lparr>CollisionBox.x = Trex.xPos tRex + 1, y = Trex.yPos tRex + 1,
      width = TrexConfig.WIDTH (config tRex) - 2, height = TrexConfig.HEIGHT (config tRex) - 2\<rparr>"
  defines "obstacleBox \<equiv> \<lparr>CollisionBox.x = Obstacle.xPos obstacle + 1, y = Obstacle.yPos obstacle + 1,
      width = ObstacleType.width (typeConfig obstacle) * size' obstacle - 2,
      height = ObstacleType.height (typeConfig obstacle) - 2\<rparr>"
  defines "tRexCollisionBoxes \<equiv>
     (if Runner_isAltGameModeEnabled g then Runner_spriteDefinition_TREX_COLLISION_BOXES g
      else if ducking tRex then Trex_collisionBoxes_DUCKING g
      else Trex_collisionBoxes_RUNNING g)"
  shows "checkForCollision g obstacle tRex opt_canvasCtx =
           (if boxCompare tRexBox obstacleBox
            then checkForCollision_outer tRexCollisionBoxes (collisionBoxes obstacle)
                   tRexBox obstacleBox (debugDraw opt_canvasCtx tRexBox obstacleBox)
            else (None, debugDraw opt_canvasCtx tRexBox obstacleBox)) \<and>
         (\<exists>rest. snd (checkForCollision g obstacle tRex (Some canvasCtx)) =
            Some (canvasCtx @
              [Save,
               StrokeStyle ''#f00'',
               StrokeRect (Trex.xPos tRex + 1) (Trex.yPos tRex + 1)
                 (TrexConfig.WIDTH (config tRex) - 2) (TrexConfig.HEIGHT (config tRex) - 2),
               StrokeStyle ''#0f0'',
               StrokeRect (Obstacle.xPos obstacle + 1) (Obstacle.yPos obstacle + 1)
                 (ObstacleType.width (typeConfig obstacle) * size' obstacle - 2)
                 (ObstacleType.height (typeConfig obstacle) - 2),
               Restore] @ rest))"
proof
  show unfold: "checkForCollision g obstacle tRex opt_canvasCtx =
           (if boxCompare tRexBox obstacleBox
            then checkForCollision_outer tRexCollisionBoxes (collisionBoxes obstacle)
                   tRexBox obstacleBox (debugDraw opt_canvasCtx tRexBox obstacleBox)
            else (None, debugDraw opt_canvasCtx tRexBox obstacleBox))"
    for opt_canvasCtx
    unfolding tRexBox_def obstacleBox_def tRexCollisionBoxes_def
    by (rule checkForCollision_unfold)
  let ?outer = "drawCollisionBoxes canvasCtx tRexBox obstacleBox"
  have "\<exists>rest. snd (checkForCollision g obstacle tRex (Some canvasCtx)) = Some (?outer @ rest)"
  proof (cases "boxCompare tRexBox obstacleBox")
    case True
    then have "snd (checkForCollision g obstacle tRex (Some canvasCtx)) =
        Some (?outer @ drawPairs [] (testedPairs (translatedPairs tRexBox tRexCollisionBoxes
          obstacleBox (collisionBoxes obstacle))))"
      using drawPairs_prefix [of ?outer]
      by (simp add: unfold outer_result debugDraw_def)
    then show ?thesis by blast
  next
    case False
    then show ?thesis by (simp add: unfold debugDraw_def)
  qed
  then show "\<exists>rest. snd (checkForCollision g obstacle tRex (Some canvasCtx)) =
            Some (canvasCtx @
              [Save,
               StrokeStyle ''#f00'',
               StrokeRect (Trex.xPos tRex + 1) (Trex.yPos tRex + 1)
                 (TrexConfig.WIDTH (config tRex) - 2) (TrexConfig.HEIGHT (config tRex) - 2),
               StrokeStyle ''#0f0'',
               StrokeRect (Obstacle.xPos obstacle + 1) (Obstacle.yPos obstacle + 1)
                 (ObstacleType.width (typeConfig obstacle) * size' obstacle - 2)
                 (ObstacleType.height (typeConfig obstacle) - 2),
               Restore] @ rest)"
    by (simp add: drawCollisionBoxes_def tRexBox_def obstacleBox_def)
qed

section \<open>Scrolling and removal of clouds\<close>

subsection \<open>The range of \<open>getRandomNum\<close>\<close>

text \<open>
  For a number of \<open>Math.random()\<close>, at least 0 and less than 1, \<open>getRandomNum\<close> stays
  within the sky levels and within the cloud gaps of \<open>Cloud.config\<close>.
\<close>

lemma getRandomNum_sky:
  assumes "0 \<le> r" "r < 1"
  shows "30 \<le> getRandomNum r (MAX_SKY_LEVEL Cloud_config) (MIN_SKY_LEVEL Cloud_config) \<and>
         getRandomNum r (MAX_SKY_LEVEL Cloud_config) (MIN_SKY_LEVEL Cloud_config) \<le> 71"
proof -
  have "0 \<le> r * 42" and "r * 42 < 42" using assms by simp_all
  then have "0 \<le> \<lfloor>r * 42\<rfloor>" and "\<lfloor>r * 42\<rfloor> < 42"
    by (simp_all add: floor_less_iff)
  then have "0 \<le> real_of_int \<lfloor>r * 42\<rfloor>" and "real_of_int \<lfloor>r * 42\<rfloor> \<le> 41"
    by linarith+
  then show ?thesis by (simp add: getRandomNum_def Cloud_config_def)
qed

lemma getRandomNum_gap:
  assumes "0 \<le> r" "r < 1"
  shows "100 \<le> getRandomNum r (MIN_CLOUD_GAP Cloud_config) (MAX_CLOUD_GAP Cloud_config) \<and>
         getRandomNum r (MIN_CLOUD_GAP Cloud_config) (MAX_CLOUD_GAP Cloud_config) \<le> 400"
proof -
  have "0 \<le> r * 301" and "r * 301 < 301" using assms by simp_all
  then have "0 \<le> \<lfloor>r * 301\<rfloor>" and "\<lfloor>r * 301\<rfloor> < 301"
    by (simp_all add: floor_less_iff)
  then have "0 \<le> real_of_int \<lfloor>r * 301\<rfloor>" and "real_of_int \<lfloor>r * 301\<rfloor> \<le> 300"
    by linarith+
  then show ?thesis by (simp add: getRandomNum_def Cloud_config_def)
qed

subsection \<open>The two unbound names\<close>

lemma getRandomNum_unbound:
  "Cloud_js_resolve ''getRandomNum'' exported = Inl (ReferenceError ''getRandomNum'')"
  by (simp add: Cloud_js_resolve_def Cloud_js_bindings_def)

lemma IS_HIDPI_unbound:
  "Cloud_js_resolve ''IS_HIDPI'' exported = Inl (ReferenceError ''IS_HIDPI'')"
  by (simp add: Cloud_js_resolve_def Cloud_js_bindings_def)

text \<open>Every call of \<open>draw()\<close> raises after \<open>save()\<close>, and every \<open>new Cloud(...)\<close> raises.\<close>

lemma Cloud_draw_raises:
  "Cloud_draw g this canvasCtx = (Inl (ReferenceError ''IS_HIDPI''), canvasCtx @ [Save])"
  by (simp add: Cloud_draw_def Let_def IS_HIDPI_unbound)

lemma Cloud_init_raises:
  "Cloud_init g random (this, canvasCtx) = (Inl (ReferenceError ''getRandomNum''), this, canvasCtx)"
  by (simp add: Cloud_init_def getRandomNum_unbound)

lemma Cloud_constructor_raises:
  "Cloud_constructor g random_gap random_yPos canvasCtx sp cw =
     (Inl (ReferenceError ''getRandomNum''), canvasCtx)"
  by (simp add: Cloud_constructor_def getRandomNum_unbound)

text \<open>
  An update of a cloud that is not removed moves the cloud, calls \<open>save()\<close> and raises:
  \<open>remove\<close> stays false wherever the cloud is.
\<close>

lemma Cloud_update_raises:
  assumes "\<not> Cloud.remove c"
  shows "Cloud_update g speed (c, canvasCtx) =
           (Inl (ReferenceError ''IS_HIDPI''),
            c\<lparr>Cloud.xPos := Cloud.xPos c - real_of_int \<lceil>speed\<rceil>\<rparr>,
            canvasCtx @ [Save])"
  using assms by (simp add: Cloud_update_def Let_def Cloud_draw_raises)

text \<open>An update never writes \<open>yPos\<close> or \<open>gap\<close>, whether it returns or raises.\<close>

lemma Cloud_update_yPos_gap:
  "Cloud.yPos (fst (snd (Cloud_update g speed (c, canvasCtx)))) = Cloud.yPos c \<and>
   gap (fst (snd (Cloud_update g speed (c, canvasCtx)))) = gap c"
  by (simp add: Cloud_update_def Let_def Cloud_draw_raises)

subsection \<open>The claims on clouds\<close>


text \<open>
  Claim C8. Once \<open>remove\<close> is true, \<open>update(speed)\<close> returns and leaves every field of the
  cloud unchanged, for every speed; it does not draw either.
\<close>

theorem Cloud_update_removed_frame:
  assumes "Cloud.remove c"
  shows "Cloud_update g speed (c, canvasCtx) = (Inr (), c, canvasCtx)"
  using assms by (simp add: Cloud_update_def)

theorem Cloud_update_removed_frame_witness:
  "Cloud.remove (example_cloud\<lparr>Cloud.remove := True\<rparr>) \<and>
   Cloud_update example_globals 6 (example_cloud\<lparr>Cloud.remove := True\<rparr>, []) =
     (Inr (), example_cloud\<lparr>Cloud.remove := True\<rparr>, [])"
  using Cloud_update_removed_frame [of "example_cloud\<lparr>Cloud.remove := True\<rparr>" example_globals 6 "[]"]
  by simp

text \<open>
  Claim C9. The claim: after construction \<open>yPos\<close> lies between \<open>MAX_SKY_LEVEL = 30\<close> and
  \<open>MIN_SKY_LEVEL = 71\<close> and \<open>gap\<close> between \<open>MIN_CLOUD_GAP = 100\<close> and
  \<open>MAX_CLOUD_GAP = 400\<close>, and \<open>update\<close> keeps both. The code, for
  \<open>new Cloud(canvas, {x: 86, y: 2}, 600)\<close>: the constructor raises the \<open>ReferenceError\<close>
  of \<open>getRandomNum\<close> before \<open>gap\<close> is assigned, whatever \<open>Math.random()\<close> would give;
  no cloud is constructed and nothing is drawn.
\<close>

theorem Cloud_constructor_never_returns:
  "Cloud_constructor example_globals (1 / 2) (37 / 100) [] \<lparr>SpritePos.x = 86, y = 2\<rparr> 600 =
     (Inl (ReferenceError ''getRandomNum''), [])"
  by (simp add: Cloud_constructor_def Cloud_js_resolve_def Cloud_js_bindings_def)

end
